theory Spec2Isabelle
  imports Complex_Main "HOL-Library.Multiset" "HOL-Library.Char_ord" "HOL-Library.List_Lexorder"
begin

section \<open>The stock visualizer of \<open>visualization/main.py\<close>\<close>

text \<open>
  The script is re-run from top to bottom on every interaction.  One run is modelled as a
  function of the run's inputs (what the widgets return, what the filesystem and the CSV
  reader answer) to the effects of the run, in order: the Streamlit elements it shows and the
  filesystem and reader calls it makes, together with the table objects it creates.

  Tables.  A DataFrame is modelled by its rows in positional order; the index labels are
  left out, since the script never reads them and exports with \<open>index=False\<close>.  A row has
  the three columns the script reads and the remaining cells as text.  The cells are
  well-typed values of the three columns: a symbol is a string (a list of the bytes of its
  UTF-8 encoding, whose lexicographic order is Python's code point order), a timestamp is
  an integer count of nanoseconds since the epoch, a close price is the exact rational
  value of a finite double.  Missing cells (NaN, NaT) and tables lacking one of the three
  columns are outside this model.
\<close>

record 'd row =
  symbol :: string
  datetime :: 'd
  close :: rat
  other :: "string list"

text \<open>\<open>pd.read_csv\<close> returns the datetime column as text; \<open>pd.to_datetime\<close> makes it a timestamp.\<close>

type_synonym raw_frame = "string row list"
type_synonym frame = "int row list"

subsection \<open>Inputs of one run\<close>

text \<open>An uploaded file: its name and what \<open>pd.read_csv\<close> does on it (the exception's text, or the table).\<close>

record uploaded_file =
  file_name :: string
  file_csv :: "string + raw_frame"

record env =
  data_source :: string
  uploaded_files :: "uploaded_file list"
  folder_path :: string
  os_path_exists :: "string \<Rightarrow> bool"
  glob_glob :: "string \<Rightarrow> string list"
  read_csv :: "string \<Rightarrow> string + raw_frame"
  to_datetime :: "string \<Rightarrow> int option"
  selectbox :: "string list \<Rightarrow> string"
  date_str :: "int \<Rightarrow> string"

subsection \<open>Effects of one run\<close>

record figure =
  figsize :: "nat \<times> nat"
  line_x :: "int list"
  line_y :: "rat list"
  linewidth :: nat
  fig_title :: string
  xlabel :: string
  ylabel :: string
  xticks_rotation :: nat

datatype effect =
    St_title string
  | St_radio string "string list"
  | St_file_uploader string
  | St_text_input string
  | St_info string
  | St_error string
  | St_warning string
  | St_success string
  | St_selectbox string "string list"
  | St_columns nat
  | St_metric string string
  | St_pyplot figure
  | St_subheader string
  | St_dataframe frame
  | St_download_button string frame string string
  | Os_path_exists string
  | Glob_glob string
  | Pd_read_csv string

text \<open>
  \<open>St_download_button label f name mime\<close>: the data of the button is \<open>f.to_csv(index=False)\<close>,
  the header and every row of \<open>f\<close> without the index column.  \<open>St_dataframe f\<close> shows \<open>f\<close>.
\<close>

text \<open>
  The table objects live in a store; a Python variable holds an address.  \<open>raised\<close> is set
  when an exception leaves the script, which ends the run.
\<close>

record state =
  heap :: "nat \<Rightarrow> frame option"
  fresh :: nat
  trace :: "effect list"
  raised :: bool

definition init :: state where
  "init = \<lparr>heap = (\<lambda>_. None), fresh = 0, trace = [], raised = False\<rparr>"

definition emit :: "effect list \<Rightarrow> state \<Rightarrow> state" where
  "emit es s = s\<lparr>trace := trace s @ es\<rparr>"

definition alloc :: "frame \<Rightarrow> state \<Rightarrow> nat \<times> state" where
  "alloc f s = (fresh s, s\<lparr>heap := (heap s)(fresh s \<mapsto> f), fresh := Suc (fresh s)\<rparr>)"

definition deref :: "state \<Rightarrow> nat \<Rightarrow> frame" where
  "deref s a = the (heap s a)"

subsection \<open>Text\<close>

text \<open>The decimal digit of a number below ten.\<close>

definition digit :: "nat \<Rightarrow> char" where
  "digit d = ''0123456789'' ! d"

fun show_nat :: "nat \<Rightarrow> string" where
  "show_nat n = (if n < 10 then [digit n] else show_nat (n div 10) @ [digit (n mod 10)])"

declare show_nat.simps [simp del]

text \<open>
  The format specification \<open>.2f\<close>: the value rounded to the nearest multiple of 1/100, an
  exact tie to the even one, with the sign of the value kept.
\<close>

definition round_half_even :: "rat \<Rightarrow> int" where
  "round_half_even q =
     (let f = \<lfloor>q\<rfloor>; d = q - of_int f
      in if d < 1 / 2 then f else if 1 / 2 < d then f + 1 else if even f then f else f + 1)"

definition format_2f :: "rat \<Rightarrow> string" where
  "format_2f q =
     (let n = nat (round_half_even (\<bar>q\<bar> * 100))
      in (if q < 0 then ''-'' else '''') @ show_nat (n div 100) @ ''.''
         @ [digit (n mod 100 div 10), digit (n mod 10)])"

text \<open>The two pictographs of the messages, as the bytes of their UTF-8 encoding.\<close>

definition point_up :: string where
  "point_up = [CHR 0xF0, CHR 0x9F, CHR 0x91, CHR 0x86]"

definition check_mark :: string where
  "check_mark = [CHR 0xE2, CHR 0x9C, CHR 0x85]"

text \<open>\<open>os.path.join\<close> on a POSIX system, for a second component that is not absolute.\<close>

definition os_path_join :: "string \<Rightarrow> string \<Rightarrow> string" where
  "os_path_join a b = (if a = [] \<or> last a = CHR ''/'' then a @ b else a @ ''/'' @ b)"

subsection \<open>Table operations\<close>

text \<open>\<open>Series.unique\<close>: the distinct values in order of first appearance.\<close>

fun unique_from :: "'a list \<Rightarrow> 'a list \<Rightarrow> 'a list" where
  "unique_from seen [] = rev seen"
| "unique_from seen (x # xs) =
     (if x \<in> set seen then unique_from seen xs else unique_from (x # seen) xs)"

definition unique :: "'a list \<Rightarrow> 'a list" where
  "unique xs = unique_from [] xs"

definition nunique :: "'a list \<Rightarrow> nat" where
  "nunique xs = length (unique xs)"

text \<open>\<open>data[data['symbol'] == s]\<close>: the rows whose mask entry is true, in order.\<close>

definition select_symbol :: "string \<Rightarrow> frame \<Rightarrow> frame" where
  "select_symbol s d = filter (\<lambda>r. symbol r = s) d"

text \<open>
  \<open>sort_values('datetime')\<close>: ascending.  The order the library gives to rows of equal
  datetime is not fixed by its default algorithm; nothing below depends on it.
\<close>

definition sort_values_datetime :: "frame \<Rightarrow> frame" where
  "sort_values_datetime d = sort_key datetime d"

text \<open>Lines 103 and 104 on the rows: the mask selection, then the sort (\<open>copy\<close> keeps the rows).\<close>

definition filtered_view :: "string \<Rightarrow> frame \<Rightarrow> frame" where
  "filtered_view s d = sort_values_datetime (select_symbol s d)"

text \<open>\<open>tail(n)\<close>: the last \<open>n\<close> rows, all of them when there are fewer.\<close>

definition tail :: "nat \<Rightarrow> 'a list \<Rightarrow> 'a list" where
  "tail n d = drop (length d - n) d"

definition series_min :: "int list \<Rightarrow> int" where
  "series_min xs = fold min (tl xs) (hd xs)"

definition series_max :: "int list \<Rightarrow> int" where
  "series_max xs = fold max (tl xs) (hd xs)"

text \<open>
  The assignment \<open>data['datetime'] = pd.to_datetime(data['datetime'])\<close>: every cell is
  converted; a cell that cannot be converted raises.
\<close>

definition set_datetime :: "'a row \<Rightarrow> 'b \<Rightarrow> 'b row" where
  "set_datetime r t = \<lparr>symbol = symbol r, datetime = t, close = close r, other = other r\<rparr>"

fun coerce_datetime :: "(string \<Rightarrow> int option) \<Rightarrow> raw_frame \<Rightarrow> frame option" where
  "coerce_datetime conv [] = Some []"
| "coerce_datetime conv (r # rs) =
     (case conv (datetime r) of
        None \<Rightarrow> None
      | Some t \<Rightarrow>
          (case coerce_datetime conv rs of
             None \<Rightarrow> None
           | Some rs' \<Rightarrow> Some (set_datetime r t # rs')))"

subsection \<open>Loading\<close>

datatype load_result = Returned_None | Returned frame | Raised

text \<open>Lines 26 to 31 and 46 to 51: the same in both loaders.\<close>

definition assemble :: "env \<Rightarrow> raw_frame list \<Rightarrow> load_result" where
  "assemble e dfs =
     (if dfs = [] then Returned_None
      else case coerce_datetime (to_datetime e) (concat dfs) of
             None \<Rightarrow> Raised
           | Some data \<Rightarrow> Returned data)"

fun read_folder_files :: "env \<Rightarrow> string list \<Rightarrow> raw_frame list \<times> effect list" where
  "read_folder_files e [] = ([], [])"
| "read_folder_files e (file # files) =
     (let (dfs, es) = read_folder_files e files
      in case read_csv e file of
           Inr df \<Rightarrow> (df # dfs, Pd_read_csv file # es)
         | Inl ex \<Rightarrow>
             (dfs, Pd_read_csv file
                   # St_warning (''Could not load '' @ file @ '': '' @ ex) # es))"

definition load_data_from_folder :: "env \<Rightarrow> string \<Rightarrow> effect list \<times> load_result" where
  "load_data_from_folder e path =
     (let pattern = os_path_join path ''*.csv'';
          files = glob_glob e pattern
      in if files = [] then ([Glob_glob pattern], Returned_None)
         else let (dfs, es) = read_folder_files e files
              in (Glob_glob pattern # es, assemble e dfs))"

fun read_uploaded_files :: "uploaded_file list \<Rightarrow> raw_frame list \<times> effect list" where
  "read_uploaded_files [] = ([], [])"
| "read_uploaded_files (file # files) =
     (let (dfs, es) = read_uploaded_files files
      in case file_csv file of
           Inr df \<Rightarrow> (df # dfs, Pd_read_csv (file_name file) # es)
         | Inl ex \<Rightarrow>
             (dfs, Pd_read_csv (file_name file)
                   # St_error (''Could not load '' @ file_name file @ '': '' @ ex) # es))"

definition load_uploaded_data :: "env \<Rightarrow> uploaded_file list \<Rightarrow> effect list \<times> load_result" where
  "load_uploaded_data e files =
     (if files = [] then ([], Returned_None)
      else let (dfs, es) = read_uploaded_files files
           in (es, assemble e dfs))"

subsection \<open>The script\<close>

text \<open>
  Lines 59 to 87.  The result is the value of the variable \<open>data\<close>: \<open>None\<close>, or the
  address of the loaded table.
\<close>

definition bind_data :: "effect list \<times> load_result \<Rightarrow> state \<Rightarrow> state \<times> nat option" where
  "bind_data r s =
     (case r of
        (es, Returned_None) \<Rightarrow> (emit es s, None)
      | (es, Raised) \<Rightarrow> ((emit es s)\<lparr>raised := True\<rparr>, None)
      | (es, Returned d) \<Rightarrow> (let (a, s') = alloc d (emit es s) in (s', Some a)))"

definition upload_branch :: "env \<Rightarrow> state \<Rightarrow> state \<times> nat option" where
  "upload_branch e s =
     (let s1 = emit [St_file_uploader ''Upload your CSV files''] s
      in if uploaded_files e \<noteq> []
         then bind_data (load_uploaded_data e (uploaded_files e)) s1
         else (emit [St_info (point_up @ '' Please upload your CSV files to get started'')] s1,
               None))"

definition folder_branch :: "env \<Rightarrow> state \<Rightarrow> state \<times> nat option" where
  "folder_branch e s =
     (let s1 = emit [St_text_input ''Enter the folder path containing your CSV files:''] s
      in if folder_path e \<noteq> []
         then let s2 = emit [Os_path_exists (folder_path e)] s1
              in if os_path_exists e (folder_path e)
                 then let (s3, data) = bind_data (load_data_from_folder e (folder_path e)) s2
                      in if raised s3 then (s3, None)
                         else if data = None
                         then (emit [St_error (''No CSV files found in: '' @ folder_path e)] s3,
                               None)
                         else (s3, data)
                 else (emit [St_error (''Folder does not exist: '' @ folder_path e)] s2, None)
         else (emit [St_info (point_up @ '' Please enter a folder path to get started'')] s1,
               None))"

definition acquire :: "env \<Rightarrow> state \<Rightarrow> state \<times> nat option" where
  "acquire e s =
     (let s0 = emit [St_title ''Simple Stock Visualizer'',
                     St_radio ''Choose how to load your data:''
                       [''Upload CSV files'', ''Load from folder'']] s
      in if data_source e = ''Upload CSV files'' then upload_branch e s0
         else folder_branch e s0)"

text \<open>Lines 109 to 144: what is shown for a filtered table that has a row.\<close>

definition close_plot :: "string \<Rightarrow> frame \<Rightarrow> figure" where
  "close_plot selected_symbol fd =
     \<lparr>figsize = (12, 6), line_x = map datetime fd, line_y = map close fd, linewidth = 2,
      fig_title = selected_symbol @ '' - Close Price Over Time'',
      xlabel = ''Date'', ylabel = ''Price ($)'', xticks_rotation = 45\<rparr>"

definition latest_close :: "frame \<Rightarrow> string" where
  "latest_close fd = ''$'' @ format_2f (close (last fd))"

definition show_views :: "env \<Rightarrow> string \<Rightarrow> nat \<Rightarrow> state \<Rightarrow> state" where
  "show_views e selected_symbol filtered_data s =
     (let fd = deref s filtered_data;
          s1 = emit [St_columns 3,
                     St_metric ''Records'' (show_nat (length fd)),
                     St_metric ''Date Range''
                       (date_str e (series_min (map datetime fd)) @ '' to ''
                        @ date_str e (series_max (map datetime fd))),
                     St_metric ''Latest Close'' (latest_close fd),
                     St_pyplot (close_plot selected_symbol fd),
                     St_subheader ''Recent Data''] s;
          (recent, s2) = alloc (tail 10 (deref s1 filtered_data)) s1;
          s3 = emit [St_dataframe (deref s2 recent)] s2
      in emit [St_download_button ''Download filtered data as CSV''
                 (deref s3 filtered_data) (selected_symbol @ ''_data.csv'') ''text/csv''] s3)"

text \<open>
  Lines 90 to 107.  The mask selection, \<open>copy\<close> and \<open>sort_values\<close> each return a new
  table; the variable \<open>filtered_data\<close> is bound to the copy and then to the sorted table.
\<close>

definition symbols_of :: "frame \<Rightarrow> string list" where
  "symbols_of d = sort (unique (map symbol d))"

definition filter_sort :: "string \<Rightarrow> nat \<Rightarrow> state \<Rightarrow> nat \<times> state" where
  "filter_sort selected_symbol data s =
     (let (masked, s1) = alloc (select_symbol selected_symbol (deref s data)) s;
          (copied, s2) = alloc (deref s1 masked) s1
      in alloc (sort_values_datetime (deref s2 copied)) s2)"

definition render :: "env \<Rightarrow> nat \<Rightarrow> state \<Rightarrow> state" where
  "render e data s =
     (if length (deref s data) = 0
      then emit [St_error ''No data found in the loaded files''] s
      else let s1 = emit [St_success (check_mark @ '' Loaded '' @ show_nat (length (deref s data))
                            @ '' records from '' @ show_nat (nunique (map symbol (deref s data)))
                            @ '' symbols'')] s;
               symbols = symbols_of (deref s1 data);
               selected_symbol = selectbox e symbols;
               s2 = emit [St_selectbox ''Select Stock Symbol:'' symbols] s1;
               (filtered_data, s3) = filter_sort selected_symbol data s2
           in if length (deref s3 filtered_data) = 0
              then emit [St_warning ''No data found for selected symbol''] s3
              else show_views e selected_symbol filtered_data s3)"

definition main :: "env \<Rightarrow> state" where
  "main e =
     (let (s, data) = acquire e init
      in if raised s then s
         else case data of None \<Rightarrow> s | Some a \<Rightarrow> render e a s)"

subsection \<open>Reading a run\<close>

text \<open>The effects a part of the script adds to the trace.\<close>

definition effects_of :: "(state \<Rightarrow> state) \<Rightarrow> state \<Rightarrow> effect list" where
  "effects_of f s = drop (length (trace s)) (trace (f s))"


fun dataframes_shown :: "effect list \<Rightarrow> frame list" where
  "dataframes_shown [] = []"
| "dataframes_shown (St_dataframe f # es) = f # dataframes_shown es"
| "dataframes_shown (_ # es) = dataframes_shown es"


fun is_scan :: "effect \<Rightarrow> bool" where
  "is_scan (Glob_glob _) = True"
| "is_scan (Pd_read_csv _) = True"
| "is_scan _ = False"

text \<open>The effects of lines 109 to 144 for the symbol \<open>sel\<close> and the rows \<open>fd\<close> of the filtered table.\<close>

definition views_shown :: "env \<Rightarrow> string \<Rightarrow> frame \<Rightarrow> effect list" where
  "views_shown e sel fd =
     [St_columns 3,
      St_metric ''Records'' (show_nat (length fd)),
      St_metric ''Date Range''
        (date_str e (series_min (map datetime fd)) @ '' to ''
         @ date_str e (series_max (map datetime fd))),
      St_metric ''Latest Close'' (latest_close fd),
      St_pyplot (close_plot sel fd),
      St_subheader ''Recent Data'',
      St_dataframe (tail 10 fd),
      St_download_button ''Download filtered data as CSV'' fd (sel @ ''_data.csv'') ''text/csv'']"

text \<open>The effects every run starts with.\<close>

definition preamble :: "effect list" where
  "preamble = [St_title ''Simple Stock Visualizer'',
               St_radio ''Choose how to load your data:''
                 [''Upload CSV files'', ''Load from folder'']]"

subsection \<open>Example inputs\<close>

text \<open>
  A conversion for the examples: the dates of the first nine days of January 2024, as the
  day of the month.  The first option is what the selection control returns before the
  user chooses.
\<close>

definition example_to_datetime :: "string \<Rightarrow> int option" where
  "example_to_datetime t =
     (if length t = 10 \<and> take 9 t = ''2024-01-0'' \<and> t ! 9 \<in> set ''123456789''
      then Some (int (of_char (t ! 9)) - 48) else None)"

definition mk_row :: "string \<Rightarrow> 'd \<Rightarrow> rat \<Rightarrow> 'd row" where
  "mk_row s t c = \<lparr>symbol = s, datetime = t, close = c, other = []\<rparr>"

definition a_csv :: raw_frame where
  "a_csv = [mk_row ''AAPL'' ''2024-01-03'' (3701 / 20),
            mk_row ''AAPL'' ''2024-01-01'' 185,
            mk_row ''AAPL'' ''2024-01-02'' (1481 / 8)]"

definition b_csv :: raw_frame where
  "b_csv = [mk_row ''MSFT'' ''2024-01-02'' 371,
            mk_row ''MSFT'' ''2024-01-01'' (7401 / 20)]"

definition ab_data :: frame where
  "ab_data = [mk_row ''AAPL'' 3 (3701 / 20), mk_row ''AAPL'' 1 185, mk_row ''AAPL'' 2 (1481 / 8),
              mk_row ''MSFT'' 2 371, mk_row ''MSFT'' 1 (7401 / 20)]"

definition example_env ::
  "string \<Rightarrow> uploaded_file list \<Rightarrow> string \<Rightarrow> (string \<Rightarrow> bool) \<Rightarrow> string list
     \<Rightarrow> (string \<Rightarrow> string + raw_frame) \<Rightarrow> env" where
  "example_env source ups path ex files rd =
     \<lparr>data_source = source, uploaded_files = ups, folder_path = path, os_path_exists = ex,
      glob_glob = (\<lambda>_. files), read_csv = rd, to_datetime = example_to_datetime,
      selectbox = hd, date_str = (\<lambda>t. ''2024-01-0'' @ show_nat (nat t))\<rparr>"

definition ab_uploads :: "uploaded_file list" where
  "ab_uploads = [\<lparr>file_name = ''A.csv'', file_csv = Inr a_csv\<rparr>,
                 \<lparr>file_name = ''B.csv'', file_csv = Inr b_csv\<rparr>]"

definition ab_reader :: "string \<Rightarrow> string + raw_frame" where
  "ab_reader p = (if p = ''/data/A.csv'' then Inr a_csv
                  else if p = ''/data/B.csv'' then Inr b_csv
                  else Inl ''No columns to parse from file'')"

definition upload_ab :: env where
  "upload_ab = example_env ''Upload CSV files'' ab_uploads [] (\<lambda>_. False) [] ab_reader"

definition folder_ab :: env where
  "folder_ab = example_env ''Load from folder'' [] ''/data'' (\<lambda>p. p = ''/data'')
                 [''/data/A.csv'', ''/data/B.csv''] ab_reader"

definition upload_unreadable :: env where
  "upload_unreadable =
     example_env ''Upload CSV files''
       [\<lparr>file_name = ''C.csv'', file_csv = Inl ''No columns to parse from file''\<rparr>]
       [] (\<lambda>_. False) [] ab_reader"

definition folder_unreadable :: env where
  "folder_unreadable =
     example_env ''Load from folder'' [] ''/data'' (\<lambda>p. p = ''/data'')
       [''/data/C.csv''] ab_reader"

definition folder_missing :: env where
  "folder_missing =
     example_env ''Load from folder'' [] ''/nowhere'' (\<lambda>p. p = ''/data'') [] ab_reader"


definition ibm_data :: frame where
  "ibm_data = map (\<lambda>t. mk_row ''IBM'' t (of_int t)) [12, 3, 7, 1, 9, 2, 11, 5, 4, 10, 8, 6]"

definition loaded_ibm :: state where
  "loaded_ibm = \<lparr>heap = (\<lambda>_. None)(0 \<mapsto> ibm_data), fresh = 1, trace = [], raised = False\<rparr>"

section \<open>Properties\<close>

subsection \<open>Distinct symbols and the filtered table\<close>








lemma mset_filtered_view:
  "mset (filtered_view s d) = filter_mset (\<lambda>r. symbol r = s) (mset d)"
  by (simp add: filtered_view_def sort_values_datetime_def select_symbol_def)

lemma sorted_filtered_view: "sorted (map datetime (filtered_view s d))"
  by (simp add: filtered_view_def sort_values_datetime_def)



subsection \<open>The store\<close>

lemma trace_emit [simp]: "trace (emit es s) = trace s @ es"
  and heap_emit [simp]: "heap (emit es s) = heap s"
  and fresh_emit [simp]: "fresh (emit es s) = fresh s"
  and raised_emit [simp]: "raised (emit es s) = raised s"
  and deref_emit [simp]: "deref (emit es s) a = deref s a"
  by (simp_all add: emit_def deref_def)

lemma fst_alloc [simp]: "fst (alloc f s) = fresh s"
  and trace_alloc [simp]: "trace (snd (alloc f s)) = trace s"
  and heap_alloc [simp]: "heap (snd (alloc f s)) = (heap s)(fresh s \<mapsto> f)"
  and fresh_alloc [simp]: "fresh (snd (alloc f s)) = Suc (fresh s)"
  and raised_alloc [simp]: "raised (snd (alloc f s)) = raised s"
  by (simp_all add: alloc_def)

lemma deref_alloc [simp]:
  "deref (snd (alloc f s)) a = (if a = fresh s then f else deref s a)"
  by (simp add: deref_def)

lemma fst_filter_sort: "fst (filter_sort sel data s) = Suc (Suc (fresh s))"
  by (simp add: filter_sort_def case_prod_beta)

lemma trace_filter_sort: "trace (snd (filter_sort sel data s)) = trace s"
  by (simp add: filter_sort_def case_prod_beta)

lemma fresh_filter_sort: "fresh (snd (filter_sort sel data s)) = Suc (Suc (Suc (fresh s)))"
  by (simp add: filter_sort_def case_prod_beta)

lemma raised_filter_sort: "raised (snd (filter_sort sel data s)) = raised s"
  by (simp add: filter_sort_def case_prod_beta)

lemma heap_filter_sort:
  "a < fresh s \<Longrightarrow> heap (snd (filter_sort sel data s)) a = heap s a"
  by (simp add: filter_sort_def case_prod_beta)

lemma deref_filter_sort:
  "a = Suc (Suc (fresh s)) \<Longrightarrow>
   deref (snd (filter_sort sel data s)) a = filtered_view sel (deref s data)"
  by (simp add: filter_sort_def case_prod_beta filtered_view_def)

lemma trace_show_views:
  "fv < fresh s \<Longrightarrow>
   trace (show_views e sel fv s) = trace s @ views_shown e sel (deref s fv)"
  by (simp add: show_views_def views_shown_def Let_def case_prod_beta)

lemma heap_show_views:
  "a < fresh s \<Longrightarrow> heap (show_views e sel fv s) a = heap s a"
  by (simp add: show_views_def Let_def case_prod_beta)

lemma heap_render: "a < fresh s \<Longrightarrow> heap (render e data s) a = heap s a"
  by (simp add: render_def Let_def case_prod_beta heap_show_views heap_filter_sort
      fresh_filter_sort)

lemma trace_render:
  "trace (render e data s) = trace s @
     (if deref s data = [] then [St_error ''No data found in the loaded files'']
      else [St_success (check_mark @ '' Loaded '' @ show_nat (length (deref s data))
                   @ '' records from '' @ show_nat (nunique (map symbol (deref s data)))
                   @ '' symbols''),
            St_selectbox ''Select Stock Symbol:'' (symbols_of (deref s data))]
           @ (if filtered_view (selectbox e (symbols_of (deref s data))) (deref s data) = []
              then [St_warning ''No data found for selected symbol'']
              else views_shown e (selectbox e (symbols_of (deref s data)))
                     (filtered_view (selectbox e (symbols_of (deref s data))) (deref s data))))"
  by (simp add: render_def Let_def case_prod_beta trace_show_views fst_filter_sort
      fresh_filter_sort trace_filter_sort deref_filter_sort)

subsection \<open>Loading\<close>

lemma coerce_datetime_length:
  "coerce_datetime conv rs = Some d \<Longrightarrow> length d = length rs"
  by (induction rs arbitrary: d) (auto split: option.splits)

lemma coerce_datetime_symbol:
  "coerce_datetime conv rs = Some d \<Longrightarrow> map symbol d = map symbol rs"
  by (induction rs arbitrary: d) (auto split: option.splits simp: set_datetime_def)

lemma coerce_datetime_None:
  "coerce_datetime conv rs = None \<Longrightarrow> \<exists>r\<in>set rs. conv (datetime r) = None"
  by (induction rs) (auto split: option.splits)

lemma coerce_datetime_Some:
  "\<forall>r\<in>set rs. conv (datetime r) \<noteq> None \<Longrightarrow> \<exists>d. coerce_datetime conv rs = Some d"
  by (induction rs) auto

lemma length_concat_sum: "length (concat xss) = sum_list (map length xss)"
  by (induction xss) auto

lemma assemble_cases:
  "(case assemble e dfs of
      Returned d \<Rightarrow>
        length d = sum_list (map length dfs) \<and> map symbol d = map symbol (concat dfs)
    | Returned_None \<Rightarrow> dfs = []
    | Raised \<Rightarrow> \<exists>r\<in>set (concat dfs). to_datetime e (datetime r) = None)"
proof (cases "dfs = []")
  case True
  then show ?thesis by (simp add: assemble_def)
next
  case False
  show ?thesis
  proof (cases "coerce_datetime (to_datetime e) (concat dfs)")
    case None
    from coerce_datetime_None [OF None] False show ?thesis
      by (simp add: assemble_def None)
  next
    case (Some d)
    from coerce_datetime_length [OF Some] coerce_datetime_symbol [OF Some] False
    show ?thesis by (simp add: assemble_def Some length_concat_sum)
  qed
qed

lemma read_uploaded_files_ok:
  "\<forall>f\<in>set files. \<not> isl (file_csv f) \<Longrightarrow>
   read_uploaded_files files
     = (map (\<lambda>f. projr (file_csv f)) files, map (\<lambda>f. Pd_read_csv (file_name f)) files)"
  by (induction files) (auto split: sum.splits)

lemma read_uploaded_files_fail:
  "\<forall>f\<in>set files. isl (file_csv f) \<Longrightarrow>
   read_uploaded_files files
     = ([], concat (map (\<lambda>f. [Pd_read_csv (file_name f),
              St_error (''Could not load '' @ file_name f @ '': '' @ projl (file_csv f))]) files))"
  by (induction files) (auto split: sum.splits)

lemma read_folder_files_ok:
  "\<forall>p\<in>set files. \<not> isl (read_csv e p) \<Longrightarrow>
   read_folder_files e files
     = (map (\<lambda>p. projr (read_csv e p)) files, map Pd_read_csv files)"
  by (induction files) (auto split: sum.splits)

lemma read_folder_files_fail:
  "\<forall>p\<in>set files. isl (read_csv e p) \<Longrightarrow>
   read_folder_files e files
     = ([], concat (map (\<lambda>p. [Pd_read_csv p,
              St_warning (''Could not load '' @ p @ '': '' @ projl (read_csv e p))]) files))"
  by (induction files) (auto split: sum.splits)

lemma bind_data_Some:
  "bind_data r s = (s', Some a) \<Longrightarrow>
   a = fresh s \<and> fresh s' = Suc (fresh s) \<and> raised s' = raised s
   \<and> trace s' = trace s @ fst r \<and> (\<exists>d. snd r = Returned d \<and> heap s' a = Some d)"
  by (cases r) (auto simp: bind_data_def case_prod_beta Let_def alloc_def emit_def
      split: load_result.splits)

lemma bind_data_None:
  "snd r = Returned_None \<Longrightarrow> bind_data r s = (emit (fst r) s, None)"
  by (cases r) (simp add: bind_data_def)

subsection \<open>What a run shows\<close>

lemma floor_numeral_divide:
  "\<lfloor>(numeral a :: rat) / numeral b\<rfloor> = numeral a div numeral b"
  using floor_divide_of_int_eq [of "numeral a" "numeral b", where ?'a = rat] by simp

lemma effects_ofI: "trace (f s) = trace s @ es \<Longrightarrow> effects_of f s = es"
  by (simp add: effects_of_def)


lemma dataframes_views_shown: "dataframes_shown (views_shown e sel fd) = [tail 10 fd]"
  by (simp add: views_shown_def)





lemma filtered_view_Nil [simp]: "filtered_view sel [] = []"
  by (simp add: filtered_view_def select_symbol_def sort_values_datetime_def)

lemma effects_render_views:
  assumes "filtered_view (selectbox e (symbols_of (deref s data))) (deref s data) \<noteq> []"
  shows "\<exists>m. effects_of (render e data) s
           = St_success m # St_selectbox ''Select Stock Symbol:'' (symbols_of (deref s data))
             # views_shown e (selectbox e (symbols_of (deref s data)))
                 (filtered_view (selectbox e (symbols_of (deref s data))) (deref s data))"
proof -
  from assms have "deref s data \<noteq> []" by auto
  with assms show ?thesis
    by (intro exI effects_ofI) (simp add: trace_render)
qed


lemma acquire_Some:
  assumes "acquire e init = (s, Some a)"
  shows "a < fresh s \<and> heap s a \<noteq> None \<and> \<not> raised s"
proof (cases "data_source e = ''Upload CSV files''")
  case True
  with assms have "bind_data (load_uploaded_data e (uploaded_files e))
      (emit [St_file_uploader ''Upload your CSV files'']
        (emit [St_title ''Simple Stock Visualizer'',
               St_radio ''Choose how to load your data:''
                 [''Upload CSV files'', ''Load from folder'']] init)) = (s, Some a)"
    by (simp add: acquire_def upload_branch_def Let_def split: if_splits)
  from bind_data_Some [OF this] show ?thesis by (auto simp: init_def)
next
  case False
  with assms obtain s2 where
    "bind_data (load_data_from_folder e (folder_path e)) s2 = (s, Some a)"
    and "s2 = emit [Os_path_exists (folder_path e)]
      (emit [St_text_input ''Enter the folder path containing your CSV files:'']
        (emit [St_title ''Simple Stock Visualizer'',
               St_radio ''Choose how to load your data:''
                 [''Upload CSV files'', ''Load from folder'']] init))"
    by (auto simp: acquire_def folder_branch_def Let_def split: if_splits prod.splits)
  from bind_data_Some [OF this(1)] this(2) show ?thesis by (auto simp: init_def)
qed

lemma main_upload_fail:
  assumes "data_source e = ''Upload CSV files''" and "uploaded_files e \<noteq> []"
    and "\<forall>f\<in>set (uploaded_files e). isl (file_csv f)"
  shows "main e = init\<lparr>trace := preamble @ [St_file_uploader ''Upload your CSV files'']
           @ concat (map (\<lambda>f. [Pd_read_csv (file_name f),
                St_error (''Could not load '' @ file_name f @ '': '' @ projl (file_csv f))])
               (uploaded_files e))\<rparr>"
  using assms
  by (simp add: main_def acquire_def upload_branch_def load_uploaded_data_def bind_data_def
      read_uploaded_files_fail assemble_def emit_def init_def preamble_def)

lemma main_folder_fail:
  assumes "data_source e \<noteq> ''Upload CSV files''" and "folder_path e \<noteq> []"
    and "os_path_exists e (folder_path e)"
    and "\<forall>p\<in>set (glob_glob e (os_path_join (folder_path e) ''*.csv'')). isl (read_csv e p)"
  shows "main e = init\<lparr>trace := preamble
           @ [St_text_input ''Enter the folder path containing your CSV files:'',
              Os_path_exists (folder_path e),
              Glob_glob (os_path_join (folder_path e) ''*.csv'')]
           @ concat (map (\<lambda>p. [Pd_read_csv p,
                St_warning (''Could not load '' @ p @ '': '' @ projl (read_csv e p))])
               (glob_glob e (os_path_join (folder_path e) ''*.csv'')))
           @ [St_error (''No CSV files found in: '' @ folder_path e)]\<rparr>"
  using assms
  by (simp add: main_def acquire_def folder_branch_def load_data_from_folder_def bind_data_def
      read_folder_files_fail assemble_def emit_def init_def preamble_def Let_def)

lemma main_folder_missing:
  assumes "data_source e \<noteq> ''Upload CSV files''" and "folder_path e \<noteq> []"
    and "\<not> os_path_exists e (folder_path e)"
  shows "main e = init\<lparr>trace := preamble
           @ [St_text_input ''Enter the folder path containing your CSV files:'',
              Os_path_exists (folder_path e),
              St_error (''Folder does not exist: '' @ folder_path e)]\<rparr>"
  using assms
  by (simp add: main_def acquire_def folder_branch_def emit_def init_def preamble_def Let_def)

lemma load_upload_ab: "snd (load_uploaded_data e ab_uploads) = assemble e [a_csv, b_csv]"
  by (simp add: load_uploaded_data_def ab_uploads_def)

lemma assemble_ab: "assemble folder_ab [a_csv, b_csv] = Returned ab_data"
  by (simp add: assemble_def folder_ab_def example_env_def a_csv_def b_csv_def ab_data_def
      mk_row_def example_to_datetime_def set_datetime_def)

lemma glob_folder_ab: "glob_glob folder_ab p = [''/data/A.csv'', ''/data/B.csv'']"
  by (simp add: folder_ab_def example_env_def)

lemma read_folder_ab:
  "read_csv folder_ab ''/data/A.csv'' = Inr a_csv" "read_csv folder_ab ''/data/B.csv'' = Inr b_csv"
  by (simp_all add: folder_ab_def example_env_def ab_reader_def)

lemma load_folder_ab: "snd (load_data_from_folder folder_ab ''/data'') = Returned ab_data"
  by (simp add: load_data_from_folder_def glob_folder_ab read_folder_ab Let_def assemble_ab)


lemma selectbox_upload_ab: "selectbox upload_ab = hd"
  by (simp add: upload_ab_def example_env_def)




lemma deref_loaded_ibm: "deref loaded_ibm 0 = ibm_data"
  by (simp add: deref_def loaded_ibm_def)

lemma symbols_of_ibm: "symbols_of ibm_data = [''IBM'']"
  by (simp add: symbols_of_def ibm_data_def mk_row_def unique_def)

lemma filtered_view_ibm:
  "filtered_view ''IBM'' ibm_data
     = map (\<lambda>t. mk_row ''IBM'' t (of_int t)) [1, 2, 3, 4, 5, 6, 7, 8, 9, 10, 11, 12]"
  by (simp add: filtered_view_def select_symbol_def sort_values_datetime_def ibm_data_def
      mk_row_def)

lemma assemble_example:
  "to_datetime e = example_to_datetime \<Longrightarrow> assemble e [a_csv, b_csv] = Returned ab_data"
  by (simp add: assemble_def a_csv_def b_csv_def ab_data_def mk_row_def
      example_to_datetime_def set_datetime_def)

lemma load_upload_ab_full:
  "load_uploaded_data upload_ab (uploaded_files upload_ab)
     = ([Pd_read_csv ''A.csv'', Pd_read_csv ''B.csv''], Returned ab_data)"
proof -
  have "to_datetime upload_ab = example_to_datetime"
    by (simp add: upload_ab_def example_env_def)
  from assemble_example [OF this] show ?thesis
    by (simp add: load_uploaded_data_def upload_ab_def example_env_def ab_uploads_def)
qed

lemma acquire_upload_ab:
  "snd (acquire upload_ab init) = Some 0"
  "heap (fst (acquire upload_ab init)) 0 = Some ab_data"
proof -
  have src: "data_source upload_ab = ''Upload CSV files''"
    "uploaded_files upload_ab \<noteq> []"
    by (simp_all add: upload_ab_def example_env_def ab_uploads_def)
  show "snd (acquire upload_ab init) = Some 0"
    by (simp add: acquire_def upload_branch_def src load_upload_ab_full bind_data_def
        case_prod_beta init_def)
  show "heap (fst (acquire upload_ab init)) 0 = Some ab_data"
    by (simp add: acquire_def upload_branch_def src load_upload_ab_full bind_data_def
        case_prod_beta init_def)
qed

subsection \<open>The two-file scenario and the failing inputs\<close>






lemma upload_unreadable_fields:
  "data_source upload_unreadable = ''Upload CSV files''"
  "uploaded_files upload_unreadable
     = [\<lparr>file_name = ''C.csv'', file_csv = Inl ''No columns to parse from file''\<rparr>]"
  by (simp_all add: upload_unreadable_def example_env_def)

lemma folder_unreadable_fields:
  "data_source folder_unreadable = ''Load from folder''"
  "folder_path folder_unreadable = ''/data''"
  "os_path_exists folder_unreadable ''/data''"
  "glob_glob folder_unreadable p = [''/data/C.csv'']"
  "read_csv folder_unreadable ''/data/C.csv'' = Inl ''No columns to parse from file''"
  by (simp_all add: folder_unreadable_def example_env_def ab_reader_def)

lemma folder_missing_fields:
  "data_source folder_missing = ''Load from folder''"
  "folder_path folder_missing = ''/nowhere''"
  "\<not> os_path_exists folder_missing ''/nowhere''"
  by (simp_all add: folder_missing_def example_env_def)

section \<open>The claims\<close>

text \<open>
  C1.  For every table \<open>d\<close> and every symbol \<open>S\<close>, the filtered table holds exactly the
  rows of \<open>d\<close> whose symbol is \<open>S\<close>, each as often as \<open>d\<close> holds it, in an order in which
  the datetimes never decrease; and the table object that lines 103 and 104 leave in the
  variable \<open>filtered_data\<close> has these rows.
\<close>

theorem filtered_view_exact_and_sorted:
  "mset (filtered_view S d) = filter_mset (\<lambda>r. symbol r = S) (mset d)
   \<and> sorted (map datetime (filtered_view S d))
   \<and> deref (snd (filter_sort S data s)) (fst (filter_sort S data s))
       = filtered_view S (deref s data)"
  by (simp add: mset_filtered_view sorted_filtered_view fst_filter_sort deref_filter_sort)

text \<open>
  C2.  When every input file parses, a table that a loader returns has as many rows as the
  parsed files have together, in upload mode and in folder mode alike.  The loader returns
  no table only when there is no file at all, and it raises only when some datetime cell
  cannot be converted: so for files that parse and whose datetime cells convert a table is
  returned, and no row is dropped or merged.
\<close>

theorem dataset_row_count:
  assumes up: "\<forall>f\<in>set ups. \<not> isl (file_csv f)"
    and fo: "\<forall>p\<in>set (glob_glob e (os_path_join path ''*.csv'')). \<not> isl (read_csv e p)"
  shows "(case snd (load_uploaded_data e ups) of
            Returned d \<Rightarrow> length d = sum_list (map (\<lambda>f. length (projr (file_csv f))) ups)
          | Returned_None \<Rightarrow> ups = []
          | Raised \<Rightarrow> \<exists>f\<in>set ups. \<exists>r\<in>set (projr (file_csv f)).
                        to_datetime e (datetime r) = None)
       \<and> (case snd (load_data_from_folder e path) of
            Returned d \<Rightarrow>
              length d = sum_list (map (\<lambda>p. length (projr (read_csv e p)))
                                     (glob_glob e (os_path_join path ''*.csv'')))
          | Returned_None \<Rightarrow> glob_glob e (os_path_join path ''*.csv'') = []
          | Raised \<Rightarrow> \<exists>p\<in>set (glob_glob e (os_path_join path ''*.csv'')).
                        \<exists>r\<in>set (projr (read_csv e p)). to_datetime e (datetime r) = None)"
proof
  let ?dfs = "map (\<lambda>f. projr (file_csv f)) ups"
  have load: "snd (load_uploaded_data e ups) = assemble e ?dfs"
    by (simp add: load_uploaded_data_def read_uploaded_files_ok [OF up] assemble_def)
  from assemble_cases [where e = e and dfs = "?dfs"]
  show "case snd (load_uploaded_data e ups) of
            Returned d \<Rightarrow> length d = sum_list (map (\<lambda>f. length (projr (file_csv f))) ups)
          | Returned_None \<Rightarrow> ups = []
          | Raised \<Rightarrow> \<exists>f\<in>set ups. \<exists>r\<in>set (projr (file_csv f)).
                        to_datetime e (datetime r) = None"
    unfolding load by (cases "assemble e ?dfs") (auto simp: comp_def)
next
  let ?files = "glob_glob e (os_path_join path ''*.csv'')"
  let ?dfs = "map (\<lambda>p. projr (read_csv e p)) ?files"
  have load: "snd (load_data_from_folder e path) = assemble e ?dfs"
    by (simp add: load_data_from_folder_def read_folder_files_ok [OF fo] assemble_def Let_def)
  from assemble_cases [where e = e and dfs = "?dfs"]
  show "case snd (load_data_from_folder e path) of
            Returned d \<Rightarrow>
              length d = sum_list (map (\<lambda>p. length (projr (read_csv e p))) ?files)
          | Returned_None \<Rightarrow> ?files = []
          | Raised \<Rightarrow> \<exists>p\<in>set ?files.
                        \<exists>r\<in>set (projr (read_csv e p)). to_datetime e (datetime r) = None"
    unfolding load by (cases "assemble e ?dfs") (auto simp: comp_def)
qed

theorem dataset_row_count_witness:
  "list_all (\<lambda>f. \<not> isl (file_csv f)) ab_uploads
   \<and> list_all (\<lambda>p. \<not> isl (read_csv folder_ab p))
         (glob_glob folder_ab (os_path_join ''/data'' ''*.csv''))
   \<and> snd (load_uploaded_data folder_ab ab_uploads) = Returned ab_data
   \<and> snd (load_data_from_folder folder_ab ''/data'') = Returned ab_data
   \<and> length ab_data = length a_csv + length b_csv"
proof -
  have up: "\<forall>f\<in>set ab_uploads. \<not> isl (file_csv f)"
    by (simp add: ab_uploads_def)
  have fo: "\<forall>p\<in>set (glob_glob folder_ab (os_path_join ''/data'' ''*.csv'')).
              \<not> isl (read_csv folder_ab p)"
    by (simp add: glob_folder_ab read_folder_ab)
  have l1: "snd (load_uploaded_data folder_ab ab_uploads) = Returned ab_data"
    by (simp add: load_upload_ab assemble_ab)
  from dataset_row_count [OF up fo]
  have "length ab_data = sum_list (map (\<lambda>f. length (projr (file_csv f))) ab_uploads)"
    by (simp add: l1)
  then have "length ab_data = length a_csv + length b_csv"
    by (simp add: ab_uploads_def)
  with up fo l1 load_folder_ab show ?thesis by (simp add: list_all_iff)
qed





text \<open>
  C6 as stated fails in upload mode.  When the one uploaded file does not parse, the run
  shows the error for that file and then ends: no message that no data was found is shown.
  The message of line 92 needs a loaded table without rows, which an empty batch never
  gives.
\<close>

theorem unreadable_upload_counterexample:
  "map file_csv (uploaded_files upload_unreadable) = [Inl ''No columns to parse from file'']
   \<and> trace (main upload_unreadable)
     = [St_title ''Simple Stock Visualizer'',
        St_radio ''Choose how to load your data:'' [''Upload CSV files'', ''Load from folder''],
        St_file_uploader ''Upload your CSV files'', Pd_read_csv ''C.csv'',
        St_error ''Could not load C.csv: No columns to parse from file'']
   \<and> St_error ''No data found in the loaded files'' \<notin> set (trace (main upload_unreadable))"
proof -
  have "main upload_unreadable = init\<lparr>trace := preamble @ [St_file_uploader ''Upload your CSV files'']
           @ concat (map (\<lambda>f. [Pd_read_csv (file_name f),
                St_error (''Could not load '' @ file_name f @ '': '' @ projl (file_csv f))])
               (uploaded_files upload_unreadable))\<rparr>"
    by (rule main_upload_fail) (simp_all add: upload_unreadable_fields)
  then show ?thesis
    by (simp add: upload_unreadable_fields preamble_def)
qed

text \<open>
  C6, amended.  When every input file fails to parse, the run ends after the loader: no
  table object is created and nothing is shown after the reports.  In upload mode the
  reports are the errors for the single files; in folder mode they are the warnings for
  the single files, followed by the error that no CSV files were found in the folder.
\<close>

theorem unreadable_batch_halts:
  assumes upload: "data_source e1 = ''Upload CSV files''" "uploaded_files e1 \<noteq> []"
      "\<forall>f\<in>set (uploaded_files e1). isl (file_csv f)"
    and folder: "data_source e2 \<noteq> ''Upload CSV files''" "folder_path e2 \<noteq> []"
      "os_path_exists e2 (folder_path e2)"
      "\<forall>p\<in>set (glob_glob e2 (os_path_join (folder_path e2) ''*.csv'')). isl (read_csv e2 p)"
  shows "main e1 = init\<lparr>trace := preamble @ [St_file_uploader ''Upload your CSV files'']
           @ concat (map (\<lambda>f. [Pd_read_csv (file_name f),
                St_error (''Could not load '' @ file_name f @ '': '' @ projl (file_csv f))])
               (uploaded_files e1))\<rparr>
       \<and> main e2 = init\<lparr>trace := preamble
           @ [St_text_input ''Enter the folder path containing your CSV files:'',
              Os_path_exists (folder_path e2),
              Glob_glob (os_path_join (folder_path e2) ''*.csv'')]
           @ concat (map (\<lambda>p. [Pd_read_csv p,
                St_warning (''Could not load '' @ p @ '': '' @ projl (read_csv e2 p))])
               (glob_glob e2 (os_path_join (folder_path e2) ''*.csv'')))
           @ [St_error (''No CSV files found in: '' @ folder_path e2)]\<rparr>"
  using main_upload_fail [OF upload] main_folder_fail [OF folder] by simp

theorem unreadable_batch_halts_witness:
  "trace (main upload_unreadable)
     = preamble @ [St_file_uploader ''Upload your CSV files'', Pd_read_csv ''C.csv'',
                   St_error ''Could not load C.csv: No columns to parse from file'']
   \<and> heap (main upload_unreadable) = (\<lambda>_. None)
   \<and> trace (main folder_unreadable)
     = preamble @ [St_text_input ''Enter the folder path containing your CSV files:'',
                   Os_path_exists ''/data'', Glob_glob ''/data/*.csv'',
                   Pd_read_csv ''/data/C.csv'',
                   St_warning ''Could not load /data/C.csv: No columns to parse from file'',
                   St_error ''No CSV files found in: /data'']
   \<and> heap (main folder_unreadable) = (\<lambda>_. None)"
  using unreadable_batch_halts [of upload_unreadable folder_unreadable]
  by (simp add: upload_unreadable_fields folder_unreadable_fields os_path_join_def init_def)

text \<open>
  C7.  In folder mode, for every path entered in the text field that does not exist on the
  filesystem, the run shows the error naming the path and ends: the loader is not called,
  so the trace has neither a directory scan nor a file read, and no table object is
  created.  A path is entered when the text field is not empty: line 79 takes the empty
  text for input that is still missing, which is the prompt of line 87 and no path.
\<close>

theorem missing_folder_reported:
  assumes "data_source e \<noteq> ''Upload CSV files''" and "folder_path e \<noteq> []"
    and "\<not> os_path_exists e (folder_path e)"
  shows "main e = init\<lparr>trace := preamble
           @ [St_text_input ''Enter the folder path containing your CSV files:'',
              Os_path_exists (folder_path e),
              St_error (''Folder does not exist: '' @ folder_path e)]\<rparr>
         \<and> filter is_scan (trace (main e)) = []"
  using main_folder_missing [OF assms] by (simp add: preamble_def)

theorem missing_folder_reported_witness:
  "trace (main folder_missing)
     = preamble @ [St_text_input ''Enter the folder path containing your CSV files:'',
                   Os_path_exists ''/nowhere'', St_error ''Folder does not exist: /nowhere'']
   \<and> filter is_scan (trace (main folder_missing)) = []"
  using missing_folder_reported [of folder_missing]
  by (simp add: folder_missing_fields init_def preamble_def)

text \<open>
  C8.  When the filtered table \<open>fd\<close> has a row, the one table the rendering shows holds the
  last \<open>min 10 (length fd)\<close> rows of \<open>fd\<close>, in the order of \<open>fd\<close>, which is ascending in
  datetime.
\<close>

theorem preview_is_tail:
  fixes e :: env and s :: state and data :: nat
  defines "d \<equiv> deref s data"
  defines "sel \<equiv> selectbox e (symbols_of d)"
  defines "fd \<equiv> filtered_view sel d"
  assumes nonempty: "fd \<noteq> []"
  shows "dataframes_shown (effects_of (render e data) s)
           = [drop (length fd - min 10 (length fd)) fd]
         \<and> length (drop (length fd - min 10 (length fd)) fd) = min 10 (length fd)
         \<and> sorted (map datetime (drop (length fd - min 10 (length fd)) fd))"
proof -
  from nonempty obtain m where
    eff: "effects_of (render e data) s
            = St_success m # St_selectbox ''Select Stock Symbol:'' (symbols_of d)
              # views_shown e sel fd"
    using effects_render_views [of e s data] by (auto simp: d_def sel_def fd_def)
  have "tail 10 fd = drop (length fd - min 10 (length fd)) fd"
    by (simp add: tail_def min_def)
  then have shown: "dataframes_shown (effects_of (render e data) s)
                      = [drop (length fd - min 10 (length fd)) fd]"
    by (simp add: eff dataframes_views_shown)
  have len: "length (drop (length fd - min 10 (length fd)) fd) = min 10 (length fd)"
    by simp
  have "sorted (map datetime fd)" by (simp add: fd_def sorted_filtered_view)
  then have "sorted (drop (length fd - min 10 (length fd)) (map datetime fd))"
    by (rule sorted_wrt_drop)
  then have srt: "sorted (map datetime (drop (length fd - min 10 (length fd)) fd))"
    by (simp add: drop_map)
  from shown len srt show ?thesis by blast
qed

theorem preview_is_tail_witness:
  "filtered_view (selectbox upload_ab (symbols_of (deref loaded_ibm 0))) (deref loaded_ibm 0) \<noteq> []
   \<and> dataframes_shown (effects_of (render upload_ab 0) loaded_ibm)
       = [map (\<lambda>t. mk_row ''IBM'' t (of_int t)) [3, 4, 5, 6, 7, 8, 9, 10, 11, 12]]"
  using preview_is_tail [of upload_ab loaded_ibm 0]
  by (simp add: deref_loaded_ibm selectbox_upload_ab symbols_of_ibm filtered_view_ibm)



text \<open>
  C10.  When loading has bound \<open>data\<close> to a table object, that object holds the same rows
  in the same order at the end of the run as after loading: selecting, copying, sorting and
  taking the tail create new objects.
\<close>

theorem dataset_unchanged_by_rendering:
  assumes "acquire e init = (s, Some data)"
  shows "heap s data \<noteq> None \<and> heap (main e) data = heap s data"
proof -
  from acquire_Some [OF assms] have a: "data < fresh s" "heap s data \<noteq> None" "\<not> raised s"
    by simp_all
  from assms a(3) have "main e = render e data s" by (simp add: main_def)
  with a show ?thesis by (simp add: heap_render)
qed

theorem dataset_unchanged_by_rendering_witness:
  "acquire upload_ab init = (fst (acquire upload_ab init), Some 0)
   \<and> heap (main upload_ab) 0 = Some ab_data"
proof -
  have acq: "acquire upload_ab init = (fst (acquire upload_ab init), Some 0)"
    using acquire_upload_ab(1) by (metis prod.collapse)
  from dataset_unchanged_by_rendering [OF acq] acq show ?thesis
    by (simp add: acquire_upload_ab(2))
qed

end
